theory Spec2Isabelle
  imports Main "HOL-Library.Word"
begin

section \<open>Host objects used by the meeting recorder\<close>

text \<open>
  The recorder of \<^verbatim>\<open>meeting-recorder.js\<close> works on objects of the host: media
  stream tracks, media streams, audio contexts and a media recorder. A track is a shared,
  mutable object (\<^verbatim>\<open>track.stop()\<close> changes it, and a track may belong to several
  streams), so tracks are identities and the set of stopped tracks lives in an explicit
  store. A stream is the list of its audio tracks and the list of its video tracks.
\<close>

type_synonym track = nat

type_synonym blob = "8 word list"

type_synonym handler = nat

record media_stream =
  audioTracks :: "track list"
  videoTracks :: "track list"

definition getTracks :: "media_stream \<Rightarrow> track list" where
  "getTracks st = audioTracks st @ videoTracks st"

text \<open>
  An \<^verbatim>\<open>AudioContext\<close> with its one \<^verbatim>\<open>MediaStreamDestination\<close>: the sample
  rate it was created with, the stream of the destination node, the streams whose source
  nodes were connected to the destination, and whether \<^verbatim>\<open>close()\<close> was called.
\<close>

record audio_context =
  sampleRate :: nat
  destination :: media_stream
  ctxSources :: "media_stream list"
  ctxClosed :: bool

record media_recorder =
  recStream :: media_stream
  recMimeType :: string
  audioBitsPerSecond :: nat
  timeslice :: "nat option"

text \<open>
  The store: the tracks stopped so far, the audio contexts created so far (the address of
  a context is its index), and the calls received so far by the two callbacks of the
  recorder, oldest first. A chunk call is (callback, payload, sequence, timestamp).
\<close>

record world =
  stoppedTracks :: "track set"
  contexts :: "audio_context list"
  chunkCalls :: "(handler \<times> blob \<times> nat \<times> nat) list"
  errorCalls :: "(handler \<times> string) list"

text \<open>
  What the host answers during one call of \<^verbatim>\<open>start\<close>. \<open>Inl msg\<close> is a rejected
  promise, \<open>Some msg\<close> an exception thrown by a constructor or method of the host.
\<close>

record host =
  micGetUserMedia :: "string + media_stream"
  getSources :: "string + string list"
  desktopGetUserMedia :: "string \<Rightarrow> string + media_stream"
  audioContextCtor :: "string option"
  destinationStream :: media_stream
  createSourceFails :: "media_stream \<Rightarrow> string option"
  mediaRecorderCtor :: "string option"
  mediaRecorderStart :: "string option"

text \<open>
  Every error of the recorder is a JavaScript \<^verbatim>\<open>Error\<close> told apart by its message
  only. The constructors follow the throw sites of the source:
  \<^item> \<open>AlreadyRecordingError\<close>: thrown by the guard of \<^verbatim>\<open>start\<close>;
  \<^item> \<open>MicrophoneError msg\<close>: thrown by \<^verbatim>\<open>getMicrophoneStream\<close>, wrapping the
    message of the host;
  \<^item> \<open>NoScreenSource\<close>, \<open>NoSystemAudio\<close>: thrown inside
    \<^verbatim>\<open>getSystemAudioStream\<close>;
  \<^item> \<open>NoSourceError\<close>: thrown by \<^verbatim>\<open>mixAudioStreams\<close> on zero valid streams;
  \<^item> \<open>HostException msg\<close>: an exception of the host, passed on as it is.
\<close>

datatype error =
    AlreadyRecordingError
  | MicrophoneError string
  | NoScreenSource
  | NoSystemAudio
  | NoSourceError
  | HostException string

section \<open>MeetingRecorder\<close>

record recorder =
  mediaRecorder :: "media_recorder option"
  audioContext :: "nat option"
  micStream :: "media_stream option"
  systemStream :: "media_stream option"
  mixedStream :: "media_stream option"
  audioChunks :: "blob list"
  sequence :: nat
  isRecording :: bool
  onAudioChunk :: "handler option"
  onError :: "handler option"
  chunkInterval :: nat
  mimeType :: string

record options =
  includeMic :: bool
  includeSystem :: bool

text \<open>The constructor.\<close>

definition MeetingRecorder :: recorder where
  "MeetingRecorder =
     \<lparr>mediaRecorder = None, audioContext = None, micStream = None, systemStream = None,
      mixedStream = None, audioChunks = [], sequence = 0, isRecording = False,
      onAudioChunk = None, onError = None, chunkInterval = 5000,
      mimeType = ''audio/webm;codecs=opus''\<rparr>"

definition stopTrack :: "track \<Rightarrow> world \<Rightarrow> world" where
  "stopTrack t w = w\<lparr>stoppedTracks := insert t (stoppedTracks w)\<rparr>"

text \<open>\<^verbatim>\<open>tracks.forEach(track => track.stop())\<close>\<close>

definition stopTracks :: "track list \<Rightarrow> world \<Rightarrow> world" where
  "stopTracks ts w = fold stopTrack ts w"

definition getMicrophoneStream :: "host \<Rightarrow> error + media_stream" where
  "getMicrophoneStream h =
     (case micGetUserMedia h of
        Inr stream \<Rightarrow> Inr stream
      | Inl msg \<Rightarrow> Inl (MicrophoneError msg))"

text \<open>
  The body of the \<^verbatim>\<open>try\<close> of \<^verbatim>\<open>getSystemAudioStream\<close>. The video tracks are
  stopped only after the check of the audio tracks has passed; the stream returned is a
  new stream over the same audio tracks.
\<close>

definition getSystemAudioStream_try :: "host \<Rightarrow> world \<Rightarrow> (error + media_stream) \<times> world" where
  "getSystemAudioStream_try h w =
     (case getSources h of
        Inl msg \<Rightarrow> (Inl (HostException msg), w)
      | Inr sources \<Rightarrow>
          (case sources of
             [] \<Rightarrow> (Inl NoScreenSource, w)
           | source0 # _ \<Rightarrow>
               (case desktopGetUserMedia h source0 of
                  Inl msg \<Rightarrow> (Inl (HostException msg), w)
                | Inr stream \<Rightarrow>
                    if length (audioTracks stream) = 0 then (Inl NoSystemAudio, w)
                    else (Inr \<lparr>audioTracks = audioTracks stream, videoTracks = []\<rparr>,
                          stopTracks (videoTracks stream) w))))"

text \<open>The \<^verbatim>\<open>catch\<close> of \<^verbatim>\<open>getSystemAudioStream\<close> turns every error into null.\<close>

definition getSystemAudioStream :: "host \<Rightarrow> world \<Rightarrow> media_stream option \<times> world" where
  "getSystemAudioStream h w =
     (case getSystemAudioStream_try h w of
        (Inr stream, w') \<Rightarrow> (Some stream, w')
      | (Inl e, w') \<Rightarrow> (None, w'))"

text \<open>
  The loop of \<^verbatim>\<open>mixAudioStreams\<close>: one source node per stream, connected to the
  destination of the context at address \<open>a\<close>. An exception of
  \<^verbatim>\<open>createMediaStreamSource\<close> ends the loop.
\<close>

definition connectSource :: "nat \<Rightarrow> media_stream \<Rightarrow> world \<Rightarrow> world" where
  "connectSource a stream w =
     (if a < length (contexts w)
      then w\<lparr>contexts := (contexts w)
             [a := (contexts w ! a)\<lparr>ctxSources := ctxSources (contexts w ! a) @ [stream]\<rparr>]\<rparr>
      else w)"

fun connectSources :: "host \<Rightarrow> nat \<Rightarrow> media_stream list \<Rightarrow> world \<Rightarrow> error option \<times> world" where
  "connectSources h a [] w = (None, w)"
| "connectSources h a (stream # rest) w =
     (case createSourceFails h stream of
        Some msg \<Rightarrow> (Some (HostException msg), w)
      | None \<Rightarrow> connectSources h a rest (connectSource a stream w))"

definition validStreamsOf :: "media_stream option list \<Rightarrow> media_stream list" where
  "validStreamsOf streams = List.map_filter (\<lambda>s. s) streams"

definition mixAudioStreams ::
  "host \<Rightarrow> media_stream option list \<Rightarrow> recorder \<Rightarrow> world
     \<Rightarrow> (error + media_stream) \<times> recorder \<times> world" where
  "mixAudioStreams h streams s w =
     (case validStreamsOf streams of
        [] \<Rightarrow> (Inl NoSourceError, s, w)
      | [stream] \<Rightarrow> (Inr stream, s, w)
      | validStreams \<Rightarrow>
          (case audioContextCtor h of
             Some msg \<Rightarrow> (Inl (HostException msg), s, w)
           | None \<Rightarrow>
               let a = length (contexts w);
                   s1 = s\<lparr>audioContext := Some a\<rparr>;
                   w1 = w\<lparr>contexts := contexts w @
                          [\<lparr>sampleRate = 16000, destination = destinationStream h,
                            ctxSources = [], ctxClosed = False\<rparr>]\<rparr>
               in (case connectSources h a validStreams w1 of
                     (Some e, w2) \<Rightarrow> (Inl e, s1, w2)
                   | (None, w2) \<Rightarrow> (Inr (destination (contexts w2 ! a)), s1, w2))))"

definition closeContext :: "nat \<Rightarrow> world \<Rightarrow> world" where
  "closeContext a w =
     (if a < length (contexts w)
      then w\<lparr>contexts := (contexts w)[a := (contexts w ! a)\<lparr>ctxClosed := True\<rparr>]\<rparr>
      else w)"

definition cleanup :: "recorder \<Rightarrow> world \<Rightarrow> recorder \<times> world" where
  "cleanup s w =
     (let (s1, w1) = (case micStream s of
                        Some stream \<Rightarrow> (s\<lparr>micStream := None\<rparr>, stopTracks (getTracks stream) w)
                      | None \<Rightarrow> (s, w));
          (s2, w2) = (case systemStream s1 of
                        Some stream \<Rightarrow> (s1\<lparr>systemStream := None\<rparr>, stopTracks (getTracks stream) w1)
                      | None \<Rightarrow> (s1, w1));
          (s3, w3) = (case audioContext s2 of
                        Some a \<Rightarrow> (s2\<lparr>audioContext := None\<rparr>, closeContext a w2)
                      | None \<Rightarrow> (s2, w2))
      in (s3\<lparr>mixedStream := None, mediaRecorder := None, isRecording := False\<rparr>, w3))"

text \<open>
  The body of the \<^verbatim>\<open>try\<close> of \<^verbatim>\<open>start\<close>, in the three steps of the source:
  the acquisition of the streams, the mixing, the set-up of the encoder.
\<close>

definition start_acquire ::
  "host \<Rightarrow> options \<Rightarrow> recorder \<Rightarrow> world
     \<Rightarrow> (error + media_stream option list) \<times> recorder \<times> world" where
  "start_acquire h opts s w =
     (case (if includeMic opts
            then (case getMicrophoneStream h of
                    Inl e \<Rightarrow> Inl e
                  | Inr stream \<Rightarrow> Inr (s\<lparr>micStream := Some stream\<rparr>, [Some stream]))
            else Inr (s, [])) of
        Inl e \<Rightarrow> (Inl e, s, w)
      | Inr (s1, streams1) \<Rightarrow>
          if includeSystem opts
          then (case getSystemAudioStream h w of
                  (sys, w') \<Rightarrow>
                    (Inr (case sys of None \<Rightarrow> streams1 | Some stream \<Rightarrow> streams1 @ [Some stream]),
                     s1\<lparr>systemStream := sys\<rparr>, w'))
          else (Inr streams1, s1, w))"

definition start_encoder ::
  "host \<Rightarrow> media_stream \<Rightarrow> recorder \<Rightarrow> world \<Rightarrow> (error + unit) \<times> recorder \<times> world" where
  "start_encoder h mixed s w =
     (let s1 = s\<lparr>mixedStream := Some mixed\<rparr> in
      case mediaRecorderCtor h of
        Some msg \<Rightarrow> (Inl (HostException msg), s1, w)
      | None \<Rightarrow>
          let mr = \<lparr>recStream = mixed, recMimeType = mimeType s1,
                    audioBitsPerSecond = 64000, timeslice = None\<rparr>;
              s2 = s1\<lparr>mediaRecorder := Some mr, sequence := 0, audioChunks := []\<rparr>
          in (case mediaRecorderStart h of
                Some msg \<Rightarrow> (Inl (HostException msg), s2, w)
              | None \<Rightarrow>
                  (Inr (),
                   s2\<lparr>mediaRecorder := Some (mr\<lparr>timeslice := Some (chunkInterval s2)\<rparr>),
                      isRecording := True\<rparr>,
                   w)))"

definition start_try ::
  "host \<Rightarrow> options \<Rightarrow> recorder \<Rightarrow> world \<Rightarrow> (error + unit) \<times> recorder \<times> world" where
  "start_try h opts s w =
     (case start_acquire h opts s w of
        (Inl e, s1, w1) \<Rightarrow> (Inl e, s1, w1)
      | (Inr streams, s1, w1) \<Rightarrow>
          (case mixAudioStreams h streams s1 w1 of
             (Inl e, s2, w2) \<Rightarrow> (Inl e, s2, w2)
           | (Inr mixed, s2, w2) \<Rightarrow> start_encoder h mixed s2 w2))"

definition start ::
  "host \<Rightarrow> options \<Rightarrow> recorder \<Rightarrow> world \<Rightarrow> (error + unit) \<times> recorder \<times> world" where
  "start h opts s w =
     (if isRecording s then (Inl AlreadyRecordingError, s, w)
      else (case start_try h opts s w of
              (Inr r, s', w') \<Rightarrow> (Inr r, s', w')
            | (Inl e, s', w') \<Rightarrow> (case cleanup s' w' of (s'', w'') \<Rightarrow> (Inl e, s'', w''))))"

text \<open>
  The two handlers installed by \<^verbatim>\<open>start\<close> on the media recorder. \<open>now\<close> is the
  value of \<^verbatim>\<open>Date.now()\<close> at the event.
\<close>

definition ondataavailable :: "blob \<Rightarrow> nat \<Rightarrow> recorder \<Rightarrow> world \<Rightarrow> recorder \<times> world" where
  "ondataavailable data now s w =
     (if length data > 0
      then (let s1 = s\<lparr>sequence := sequence s + 1\<rparr>;
                timestamp = now
            in (case onAudioChunk s1 of
                  Some cb \<Rightarrow> (s1, w\<lparr>chunkCalls := chunkCalls w @ [(cb, data, sequence s1, timestamp)]\<rparr>)
                | None \<Rightarrow> (s1, w)))
      else (s, w))"

definition onerror :: "string \<Rightarrow> recorder \<Rightarrow> world \<Rightarrow> recorder \<times> world" where
  "onerror err s w =
     (case onError s of
        Some cb \<Rightarrow> (s, w\<lparr>errorCalls := errorCalls w @ [(cb, err)]\<rparr>)
      | None \<Rightarrow> (s, w))"

text \<open>
  A session after a successful \<^verbatim>\<open>start\<close> is the list of the events that the media
  recorder delivers, in order.
\<close>

datatype recorder_event = DataAvailable blob nat | RecorderError string

fun handle :: "recorder_event \<Rightarrow> recorder \<Rightarrow> world \<Rightarrow> recorder \<times> world" where
  "handle (DataAvailable data now) s w = ondataavailable data now s w"
| "handle (RecorderError err) s w = onerror err s w"

fun session :: "recorder_event list \<Rightarrow> recorder \<Rightarrow> world \<Rightarrow> recorder \<times> world" where
  "session [] s w = (s, w)"
| "session (ev # evs) s w = (case handle ev s w of (s', w') \<Rightarrow> session evs s' w')"

definition getStatus :: "recorder \<Rightarrow> bool \<times> nat" where
  "getStatus s = (isRecording s, sequence s)"

section \<open>Observing a session\<close>

text \<open>
  The non-empty flushes among the events of a session, as (payload, timestamp), in order.
\<close>

fun flushes :: "recorder_event list \<Rightarrow> (blob \<times> nat) list" where
  "flushes [] = []"
| "flushes (DataAvailable data now # evs) =
     (if length data > 0 then (data, now) # flushes evs else flushes evs)"
| "flushes (RecorderError err # evs) = flushes evs"

text \<open>
  The chunk calls that the callback received between two stores, and the sequence number
  and the (payload, timestamp) of one call.
\<close>

definition callsSince :: "world \<Rightarrow> world \<Rightarrow> (handler \<times> blob \<times> nat \<times> nat) list" where
  "callsSince w0 w1 = drop (length (chunkCalls w0)) (chunkCalls w1)"

definition callSequence :: "handler \<times> blob \<times> nat \<times> nat \<Rightarrow> nat" where
  "callSequence c = fst (snd (snd c))"

definition callChunk :: "handler \<times> blob \<times> nat \<times> nat \<Rightarrow> blob \<times> nat" where
  "callChunk c = (fst (snd c), snd (snd (snd c)))"

text \<open>
  The ways in which the host can refuse system audio: the enumeration of the screen
  sources is rejected, it is empty, the capture of the first source is rejected, or the
  captured stream has no audio track.
\<close>

definition systemAudioFails :: "host \<Rightarrow> bool" where
  "systemAudioFails h =
     (case getSources h of
        Inl msg \<Rightarrow> True
      | Inr [] \<Rightarrow> True
      | Inr (source0 # rest) \<Rightarrow>
          (case desktopGetUserMedia h source0 of
             Inl msg \<Rightarrow> True
           | Inr stream \<Rightarrow> audioTracks stream = []))"

section \<open>MeetingAPI\<close>

text \<open>
  A parsed JSON value; \<open>None\<close> of type \<open>json option\<close> is JavaScript's
  \<^verbatim>\<open>undefined\<close>, so that a field holding null is \<open>Some JNull\<close>.
\<close>

datatype json =
    JNull
  | JBool bool
  | JNumber int
  | JString string
  | JArray "json list"
  | JObject "(string \<times> json) list"

text \<open>The truthiness that \<^verbatim>\<open>!this.meetingId\<close> tests.\<close>

fun truthy :: "json option \<Rightarrow> bool" where
  "truthy None = False"
| "truthy (Some JNull) = False"
| "truthy (Some (JBool b)) = b"
| "truthy (Some (JNumber n)) = (n \<noteq> 0)"
| "truthy (Some (JString str)) = (str \<noteq> [])"
| "truthy (Some (JArray vs)) = True"
| "truthy (Some (JObject kvs)) = True"

text \<open>
  The errors of the client, again JavaScript \<^verbatim>\<open>Error\<close>s told apart by message:
  \<open>MeetingNotCreated\<close> is thrown by the guards of \<^verbatim>\<open>submitAudio\<close> and
  \<^verbatim>\<open>endMeeting\<close>; \<open>CreateFailed\<close>, \<open>SubmitFailed\<close> and \<open>EndFailed\<close> carry the
  status of a response that is not ok; \<open>FetchRejected\<close> is a rejected
  \<^verbatim>\<open>fetch\<close>, \<open>JsonRejected\<close> a rejected \<^verbatim>\<open>response.json()\<close>, and
  \<open>TypeError\<close> the property access on null.
\<close>

datatype api_error =
    MeetingNotCreated
  | CreateFailed nat
  | SubmitFailed nat
  | EndFailed nat
  | FetchRejected string
  | JsonRejected
  | TypeError

text \<open>\<^verbatim>\<open>data.meetingId\<close> on a parsed body; the last of several equal keys wins.\<close>

fun meetingIdOf :: "json \<Rightarrow> api_error + json option" where
  "meetingIdOf JNull = Inl TypeError"
| "meetingIdOf (JObject kvs) = Inr (map_of (rev kvs) ''meetingId'')"
| "meetingIdOf (JBool b) = Inr None"
| "meetingIdOf (JNumber n) = Inr None"
| "meetingIdOf (JString str) = Inr None"
| "meetingIdOf (JArray vs) = Inr None"

text \<open>
  What one \<^verbatim>\<open>fetch\<close> answers: a rejection, or a response with its status and its
  body as \<^verbatim>\<open>response.json()\<close> parses it (\<open>None\<close> when the parse is rejected).
\<close>

datatype fetch_result = Rejected string | Response nat "json option"

definition ok :: "nat \<Rightarrow> bool" where
  "ok status = (200 \<le> status \<and> status \<le> 299)"

text \<open>
  The requests issued so far, oldest first: the base address, and for the create
  request the user and the title, for the audio request the meeting id, the payload, the
  sequence and the timestamp, for the end request the meeting id.
\<close>

datatype request =
    CreateRequest string string string
  | AudioRequest string "json option" blob nat nat
  | EndRequest string "json option"

record net =
  requests :: "request list"

record meeting_api =
  baseUrl :: string
  meetingId :: "json option"

definition API_BASE_URL :: string where
  "API_BASE_URL = ''https://chat.ecnu.edu.cn/api/meeting''"

text \<open>The constructor.\<close>

definition MeetingAPI :: "string \<Rightarrow> meeting_api" where
  "MeetingAPI url = \<lparr>baseUrl = url, meetingId = Some JNull\<rparr>"

definition createMeeting ::
  "string \<Rightarrow> string \<Rightarrow> fetch_result \<Rightarrow> meeting_api \<Rightarrow> net
     \<Rightarrow> (api_error + json) \<times> meeting_api \<times> net" where
  "createMeeting userId title reply api n =
     (let n' = n\<lparr>requests := requests n @ [CreateRequest (baseUrl api) userId title]\<rparr> in
      case reply of
        Rejected msg \<Rightarrow> (Inl (FetchRejected msg), api, n')
      | Response status body \<Rightarrow>
          if \<not> ok status then (Inl (CreateFailed status), api, n')
          else (case body of
                  None \<Rightarrow> (Inl JsonRejected, api, n')
                | Some data \<Rightarrow>
                    (case meetingIdOf data of
                       Inl e \<Rightarrow> (Inl e, api, n')
                     | Inr v \<Rightarrow> (Inr data, api\<lparr>meetingId := v\<rparr>, n'))))"

definition submitAudio ::
  "blob \<Rightarrow> nat \<Rightarrow> nat \<Rightarrow> fetch_result \<Rightarrow> meeting_api \<Rightarrow> net
     \<Rightarrow> (api_error + json) \<times> meeting_api \<times> net" where
  "submitAudio audioBlob seqno timestamp reply api n =
     (if \<not> truthy (meetingId api) then (Inl MeetingNotCreated, api, n)
      else
        (let n' = n\<lparr>requests := requests n @
                      [AudioRequest (baseUrl api) (meetingId api) audioBlob seqno timestamp]\<rparr> in
         case reply of
           Rejected msg \<Rightarrow> (Inl (FetchRejected msg), api, n')
         | Response status body \<Rightarrow>
             if \<not> ok status then (Inl (SubmitFailed status), api, n')
             else (case body of
                     None \<Rightarrow> (Inl JsonRejected, api, n')
                   | Some data \<Rightarrow> (Inr data, api, n'))))"

definition endMeeting ::
  "fetch_result \<Rightarrow> meeting_api \<Rightarrow> net \<Rightarrow> (api_error + json) \<times> meeting_api \<times> net" where
  "endMeeting reply api n =
     (if \<not> truthy (meetingId api) then (Inl MeetingNotCreated, api, n)
      else
        (let n' = n\<lparr>requests := requests n @ [EndRequest (baseUrl api) (meetingId api)]\<rparr> in
         case reply of
           Rejected msg \<Rightarrow> (Inl (FetchRejected msg), api, n')
         | Response status body \<Rightarrow>
             if \<not> ok status then (Inl (EndFailed status), api, n')
             else (case body of
                     None \<Rightarrow> (Inl JsonRejected, api, n')
                   | Some data \<Rightarrow> (Inr data, api\<lparr>meetingId := Some JNull\<rparr>, n'))))"

definition getMeetingId :: "meeting_api \<Rightarrow> json option" where
  "getMeetingId api = meetingId api"

definition setBaseUrl :: "string \<Rightarrow> meeting_api \<Rightarrow> meeting_api" where
  "setBaseUrl url api = api\<lparr>baseUrl := url\<rparr>"

section \<open>Concrete inputs\<close>

text \<open>
  A microphone stream with one audio track, a desktop stream with an audio and a video
  track, a desktop stream that has a video track but no audio track, and the stream of a
  mixing destination.
\<close>

definition micStreamA :: media_stream where
  "micStreamA = \<lparr>audioTracks = [1], videoTracks = []\<rparr>"

definition desktopStreamA :: media_stream where
  "desktopStreamA = \<lparr>audioTracks = [2], videoTracks = [3]\<rparr>"

definition desktopStreamMute :: media_stream where
  "desktopStreamMute = \<lparr>audioTracks = [], videoTracks = [7]\<rparr>"

definition destStreamA :: media_stream where
  "destStreamA = \<lparr>audioTracks = [4], videoTracks = []\<rparr>"

definition world0 :: world where
  "world0 = \<lparr>stoppedTracks = {}, contexts = [], chunkCalls = [], errorCalls = []\<rparr>"

text \<open>A host that grants everything.\<close>

definition hostGrant :: host where
  "hostGrant =
     \<lparr>micGetUserMedia = Inr micStreamA, getSources = Inr [''screen:0:0''],
      desktopGetUserMedia = (\<lambda>src. Inr desktopStreamA), audioContextCtor = None,
      destinationStream = destStreamA, createSourceFails = (\<lambda>stream. None),
      mediaRecorderCtor = None, mediaRecorderStart = None\<rparr>"

text \<open>A host that denies the microphone and has no screen source.\<close>

definition hostDeny :: host where
  "hostDeny = hostGrant\<lparr>micGetUserMedia := Inl ''Permission denied'', getSources := Inr []\<rparr>"

text \<open>A host that grants the microphone and has no screen source.\<close>

definition hostMicOnly :: host where
  "hostMicOnly = hostGrant\<lparr>getSources := Inr []\<rparr>"

text \<open>A host whose desktop capture carries no audio track.\<close>

definition hostMute :: host where
  "hostMute = hostGrant\<lparr>desktopGetUserMedia := (\<lambda>src. Inr desktopStreamMute)\<rparr>"

text \<open>A host that grants both streams and refuses the encoder.\<close>

definition hostNoEncoder :: host where
  "hostNoEncoder = hostGrant\<lparr>mediaRecorderCtor := Some ''NotSupportedError''\<rparr>"

definition optsBoth :: options where
  "optsBoth = \<lparr>includeMic = True, includeSystem = True\<rparr>"

definition optsNone :: options where
  "optsNone = \<lparr>includeMic = False, includeSystem = False\<rparr>"

definition optsSystem :: options where
  "optsSystem = \<lparr>includeMic = False, includeSystem = True\<rparr>"

definition net0 :: net where
  "net0 = \<lparr>requests = []\<rparr>"

definition replyCreated :: "string \<Rightarrow> fetch_result" where
  "replyCreated mid =
     Response 200 (Some (JObject [(''meetingId'', JString mid), (''status'', JString ''created'')]))"

text \<open>
  A recorder whose callbacks are registered and whose counter still holds the 9 of an
  earlier session, and the events of a session: two non-empty flushes, an empty flush and
  an encoder error between them.
\<close>

definition recorderA :: recorder where
  "recorderA = MeetingRecorder\<lparr>sequence := 9, onAudioChunk := Some 11, onError := Some 12\<rparr>"

definition eventsA :: "recorder_event list" where
  "eventsA = [DataAvailable [1, 2] 1000, DataAvailable [] 2000, RecorderError ''encoder'',
              DataAvailable [3] 3000]"

text \<open>
  A recorder in the middle of a session over two mixed streams, and its store: the video
  track 3 of the desktop capture was stopped at acquisition.
\<close>

definition recorderHeld :: recorder where
  "recorderHeld = MeetingRecorder\<lparr>micStream := Some micStreamA,
     systemStream := Some \<lparr>audioTracks = [2], videoTracks = []\<rparr>, audioContext := Some 0,
     mixedStream := Some destStreamA, isRecording := True\<rparr>"

definition worldHeld :: world where
  "worldHeld = world0\<lparr>stoppedTracks := {3},
     contexts := [\<lparr>sampleRate = 16000, destination = destStreamA,
                   ctxSources = [micStreamA, \<lparr>audioTracks = [2], videoTracks = []\<rparr>],
                   ctxClosed = False\<rparr>]\<rparr>"

text \<open>A client with an active meeting, and the reply to a successful end call.\<close>

definition apiActive :: meeting_api where
  "apiActive = (MeetingAPI API_BASE_URL)\<lparr>meetingId := Some (JString ''m-123'')\<rparr>"

definition replyEnded :: fetch_result where
  "replyEnded =
     Response 200 (Some (JObject [(''finalSummary'', JString ''done''), (''duration'', JNumber 60)]))"

section \<open>Basic facts\<close>

lemma stopTracks_eq: "stopTracks ts w = w\<lparr>stoppedTracks := stoppedTracks w \<union> set ts\<rparr>"
  unfolding stopTracks_def
  by (induction ts arbitrary: w) (simp_all add: stopTrack_def insert_commute)

lemmas recorder_defs =
  start_def start_try_def start_acquire_def start_encoder_def mixAudioStreams_def
  validStreamsOf_def getMicrophoneStream_def getSystemAudioStream_def
  getSystemAudioStream_try_def cleanup_def closeContext_def connectSource_def
  stopTracks_eq getTracks_def List.map_filter_def

lemmas fixture_defs =
  hostGrant_def hostDeny_def hostMicOnly_def hostMute_def hostNoEncoder_def
  optsBoth_def optsNone_def optsSystem_def world0_def MeetingRecorder_def recorderA_def
  micStreamA_def desktopStreamA_def desktopStreamMute_def destStreamA_def

lemma cleanup_result:
  "cleanup s w =
     (s\<lparr>micStream := None, systemStream := None, audioContext := None, mixedStream := None,
        mediaRecorder := None, isRecording := False\<rparr>,
      (case audioContext s of None \<Rightarrow> (\<lambda>x. x) | Some a \<Rightarrow> closeContext a)
        (w\<lparr>stoppedTracks := stoppedTracks w
              \<union> (case micStream s of None \<Rightarrow> {} | Some stream \<Rightarrow> set (getTracks stream))
              \<union> (case systemStream s of None \<Rightarrow> {} | Some stream \<Rightarrow> set (getTracks stream))\<rparr>))"
  by (cases "micStream s"; cases "systemStream s"; cases "audioContext s")
     (simp_all add: cleanup_def stopTracks_eq Un_assoc)

lemma cleanup_not_recording: "\<not> isRecording (fst (cleanup s w))"
  by (simp add: cleanup_def Let_def split: option.splits prod.splits)

lemma start_grant_result:
  "fst (start hostGrant optsBoth recorderA world0) = Inr ()"
  "onAudioChunk (fst (snd (start hostGrant optsBoth recorderA world0))) = Some 11"
  "isRecording (fst (snd (start hostGrant optsBoth recorderA world0)))"
  by (simp_all add: recorder_defs fixture_defs)

section \<open>Sequence numbers of a session\<close>

lemma ondataavailable_empty: "ondataavailable [] now s w = (s, w)"
  by (simp add: ondataavailable_def)

lemma session_calls:
  "session evs s w = (s1, w1) \<Longrightarrow>
     sequence s1 = sequence s + length (flushes evs) \<and>
     onAudioChunk s1 = onAudioChunk s \<and>
     (\<exists>new. chunkCalls w1 = chunkCalls w @ new \<and>
        map callSequence new =
          (if onAudioChunk s = None then []
           else [Suc (sequence s) ..< Suc (sequence s + length (flushes evs))]) \<and>
        map callChunk new = (if onAudioChunk s = None then [] else flushes evs))"
proof (induction evs arbitrary: s w)
  case Nil
  then show ?case by simp
next
  case (Cons ev evs)
  obtain s' w' where h: "handle ev s w = (s', w')" by (cases "handle ev s w")
  with Cons.prems have rest: "session evs s' w' = (s1, w1)" by simp
  note IH = Cons.IH [OF rest]
  show ?case
  proof (cases ev)
    case (RecorderError err)
    with h have "s' = s" "chunkCalls w' = chunkCalls w"
      by (auto simp: onerror_def split: option.splits)
    with IH RecorderError show ?thesis by (auto simp del: upt_Suc)
  next
    case (DataAvailable data now)
    show ?thesis
    proof (cases "length data > 0")
      case False
      with h DataAvailable have "s' = s" "w' = w" by (simp_all add: ondataavailable_def)
      with IH DataAvailable False show ?thesis by (auto simp del: upt_Suc)
    next
      case True
      show ?thesis
      proof (cases "onAudioChunk s")
        case None
        with h DataAvailable True have "s' = s\<lparr>sequence := sequence s + 1\<rparr>" "w' = w"
          by (simp_all add: ondataavailable_def Let_def)
        with IH DataAvailable True None show ?thesis by (auto simp del: upt_Suc)
      next
        case (Some cb)
        with h DataAvailable True have s': "s' = s\<lparr>sequence := sequence s + 1\<rparr>"
          and w': "w' = w\<lparr>chunkCalls := chunkCalls w @ [(cb, data, sequence s + 1, now)]\<rparr>"
          by (simp_all add: ondataavailable_def Let_def)
        from IH obtain new where n1: "chunkCalls w1 = chunkCalls w' @ new"
          and n2: "map callSequence new =
            [Suc (sequence s') ..< Suc (sequence s' + length (flushes evs))]"
          and n3: "map callChunk new = flushes evs"
          using s' Some by auto
        let ?new = "(cb, data, sequence s + 1, now) # new"
        have "chunkCalls w1 = chunkCalls w @ ?new" using n1 w' by simp
        moreover have "map callSequence ?new =
            [Suc (sequence s) ..< Suc (sequence s + length (flushes (ev # evs)))]"
          using n2 s' DataAvailable True by (simp add: callSequence_def upt_conv_Cons del: upt_Suc)
        moreover have "map callChunk ?new = flushes (ev # evs)"
          using n3 DataAvailable True by (simp add: callChunk_def)
        ultimately show ?thesis using IH s' Some DataAvailable True by auto
      qed
    qed
  qed
qed

lemma start_encoder_success:
  "start_encoder h mixed s w = (Inr r, s', w') \<Longrightarrow> sequence s' = 0 \<and> isRecording s' \<and> w' = w"
  by (auto simp: start_encoder_def Let_def split: option.splits)

lemma start_try_success:
  "start_try h opts s w = (Inr r, s', w') \<Longrightarrow> sequence s' = 0 \<and> isRecording s'"
  by (auto simp: start_try_def split: prod.splits sum.splits dest: start_encoder_success)

lemma start_success:
  "start h opts s w = (Inr r, s', w') \<Longrightarrow> sequence s' = 0 \<and> isRecording s'"
  by (auto simp: start_def split: if_splits prod.splits sum.splits dest: start_try_success)

text \<open>
  Claim C1. A successful \<^verbatim>\<open>start\<close> resets the counter to 0, whatever it held
  before. Over the events of the session that follows, the counter ends at the number of
  non-empty flushes; the calls already in the store stay; the registered callback is
  called once per non-empty flush, in order, with that flush's payload and timestamp and
  with the sequence numbers 1, 2, 3, ... without gap or repeat; and a zero-byte flush
  changes neither the counter nor the calls. With no callback registered nothing is
  called. The callback is an observer: it does not write the fields of the recorder, and
  its field is not reassigned during the session. Sequence numbers are natural numbers;
  the doubles of the source are exact below \<open>2 ^ 53\<close>.
\<close>

theorem sequence_numbers_contiguous:
  assumes "start h opts s w = (Inr r, s0, w0)" and "session evs s0 w0 = (s1, w1)"
  shows "sequence s0 = 0
       \<and> sequence s1 = length (flushes evs)
       \<and> take (length (chunkCalls w0)) (chunkCalls w1) = chunkCalls w0
       \<and> map callSequence (callsSince w0 w1) =
           (if onAudioChunk s0 = None then [] else [1 ..< Suc (length (flushes evs))])
       \<and> map callChunk (callsSince w0 w1) =
           (if onAudioChunk s0 = None then [] else flushes evs)
       \<and> ondataavailable [] now s1 w1 = (s1, w1)"
proof -
  from assms(1) have z: "sequence s0 = 0" by (simp add: start_success)
  from session_calls [OF assms(2)] obtain new where
    q: "sequence s1 = sequence s0 + length (flushes evs)"
    and n1: "chunkCalls w1 = chunkCalls w0 @ new"
    and n2: "map callSequence new =
          (if onAudioChunk s0 = None then []
           else [Suc (sequence s0) ..< Suc (sequence s0 + length (flushes evs))])"
    and n3: "map callChunk new = (if onAudioChunk s0 = None then [] else flushes evs)"
    by blast
  have c: "callsSince w0 w1 = new" using n1 by (simp add: callsSince_def)
  show ?thesis using z q n1 n2 n3 c by (simp add: ondataavailable_empty)
qed

theorem sequence_numbers_contiguous_witness:
  "fst (start hostGrant optsBoth recorderA world0) = Inr () \<and>
   (let s0 = fst (snd (start hostGrant optsBoth recorderA world0));
        w0 = snd (snd (start hostGrant optsBoth recorderA world0));
        s1 = fst (session eventsA s0 w0);
        w1 = snd (session eventsA s0 w0)
    in sequence s0 = 0 \<and> sequence s1 = 2 \<and>
       map callSequence (callsSince w0 w1) = [1, 2] \<and>
       map callChunk (callsSince w0 w1) = [([1, 2], 1000), ([3], 3000)])"
proof -
  obtain r s0 w0 where a: "start hostGrant optsBoth recorderA world0 = (r, s0, w0)"
    by (cases "start hostGrant optsBoth recorderA world0")
  obtain s1 w1 where b: "session eventsA s0 w0 = (s1, w1)"
    by (cases "session eventsA s0 w0")
  have r: "r = Inr ()" and cb: "onAudioChunk s0 = Some 11"
    using a start_grant_result by simp_all
  have f: "flushes eventsA = [([1, 2], 1000), ([3], 3000)]"
    by (simp add: eventsA_def)
  from sequence_numbers_contiguous [OF a [unfolded r] b, of 0] a b r cb f
  show ?thesis by (simp add: upt_conv_Cons del: upt_Suc)
qed

section \<open>The guard of start\<close>

text \<open>
  Claim C2. In every state in which a recording is in progress, \<^verbatim>\<open>start\<close> fails
  with the already-recording error and returns the recorder and the store as they were:
  streams, encoder, counter, flag, stopped tracks, audio contexts and callback calls.
\<close>

theorem start_already_recording:
  "isRecording s \<Longrightarrow> start h opts s w = (Inl AlreadyRecordingError, s, w)"
  by (simp add: start_def)

theorem start_already_recording_witness:
  "isRecording (fst (snd (start hostGrant optsBoth recorderA world0))) \<and>
   start hostDeny optsNone (fst (snd (start hostGrant optsBoth recorderA world0)))
         (snd (snd (start hostGrant optsBoth recorderA world0)))
     = (Inl AlreadyRecordingError, fst (snd (start hostGrant optsBoth recorderA world0)),
        snd (snd (start hostGrant optsBoth recorderA world0)))"
  using start_already_recording
    [of "fst (snd (start hostGrant optsBoth recorderA world0))" hostDeny optsNone
        "snd (snd (start hostGrant optsBoth recorderA world0))"]
    start_grant_result(3)
  by simp

section \<open>Starting without a usable source\<close>

lemma start_failure_not_recording:
  "\<not> isRecording s \<Longrightarrow> fst (start h opts s w) = Inl e \<Longrightarrow>
     \<not> isRecording (fst (snd (start h opts s w)))"
  using cleanup_not_recording
  by (auto simp: start_def split: prod.splits sum.splits)

lemma start_mic_denied:
  "\<not> isRecording s \<Longrightarrow> includeMic opts \<Longrightarrow> micGetUserMedia h = Inl msg \<Longrightarrow>
     fst (start h opts s w) = Inl (MicrophoneError msg)"
  by (simp add: start_def start_try_def start_acquire_def getMicrophoneStream_def
        split: prod.splits)

lemma start_nothing_valid:
  "\<not> isRecording s \<Longrightarrow> \<not> includeMic opts \<Longrightarrow>
     \<not> includeSystem opts \<or> fst (getSystemAudioStream h w) = None \<Longrightarrow>
     fst (start h opts s w) = Inl NoSourceError"
  by (auto simp: start_def start_try_def start_acquire_def mixAudioStreams_def
        validStreamsOf_def List.map_filter_def split: prod.splits)

text \<open>
  Claim C3, as the code has it. From a state that is not recording: when the microphone
  is not requested and system audio is either not requested or fails, \<^verbatim>\<open>start\<close>
  fails with the no-source error of \<^verbatim>\<open>mixAudioStreams\<close>; when the microphone is
  requested and its acquisition fails, \<^verbatim>\<open>start\<close> fails with the microphone error
  of \<^verbatim>\<open>getMicrophoneStream\<close>, whatever system audio would do. In all these cases
  the recording flag is false afterwards.
\<close>

theorem start_without_source:
  assumes "\<not> isRecording s"
    and "if includeMic opts then micGetUserMedia h = Inl msg
         else (\<not> includeSystem opts \<or> fst (getSystemAudioStream h w) = None)"
  shows "fst (start h opts s w) =
           Inl (if includeMic opts then MicrophoneError msg else NoSourceError)
       \<and> \<not> isRecording (fst (snd (start h opts s w)))"
proof -
  have r: "fst (start h opts s w) =
           Inl (if includeMic opts then MicrophoneError msg else NoSourceError)"
  proof (cases "includeMic opts")
    case True
    with assms show ?thesis by (simp add: start_mic_denied)
  next
    case False
    with assms show ?thesis by (simp add: start_nothing_valid)
  qed
  with assms(1) show ?thesis by (simp add: start_failure_not_recording)
qed

theorem start_without_source_witness:
  "(\<not> isRecording MeetingRecorder \<and> \<not> includeMic optsNone \<and> \<not> includeSystem optsNone \<and>
    fst (start hostGrant optsNone MeetingRecorder world0) = Inl NoSourceError \<and>
    \<not> isRecording (fst (snd (start hostGrant optsNone MeetingRecorder world0)))) \<and>
   (\<not> includeMic optsSystem \<and> includeSystem optsSystem \<and>
    fst (getSystemAudioStream hostDeny world0) = None \<and>
    fst (start hostDeny optsSystem MeetingRecorder world0) = Inl NoSourceError \<and>
    \<not> isRecording (fst (snd (start hostDeny optsSystem MeetingRecorder world0)))) \<and>
   (includeMic optsBoth \<and> micGetUserMedia hostDeny = Inl ''Permission denied'' \<and>
    fst (start hostDeny optsBoth MeetingRecorder world0)
      = Inl (MicrophoneError ''Permission denied'') \<and>
    \<not> isRecording (fst (snd (start hostDeny optsBoth MeetingRecorder world0))))"
proof -
  have a: "\<not> isRecording MeetingRecorder" by (simp add: MeetingRecorder_def)
  have b: "\<not> includeMic optsNone" "\<not> includeSystem optsNone"
    "\<not> includeMic optsSystem" "includeSystem optsSystem" "includeMic optsBoth"
    by (simp_all add: optsNone_def optsSystem_def optsBoth_def)
  have c: "fst (getSystemAudioStream hostDeny world0) = None"
    by (simp add: getSystemAudioStream_def getSystemAudioStream_try_def hostDeny_def
          hostGrant_def)
  have d: "micGetUserMedia hostDeny = Inl ''Permission denied''"
    by (simp add: hostDeny_def hostGrant_def)
  from start_without_source [of MeetingRecorder optsNone hostGrant "''''" world0]
    start_without_source [of MeetingRecorder optsSystem hostDeny "''''" world0]
    start_without_source [of MeetingRecorder optsBoth hostDeny "''Permission denied''" world0]
    a b c d
  show ?thesis by simp
qed

text \<open>
  Claim C3 as worded does not hold: with both sources requested and both failing, the
  error is the microphone error, not the no-source error.
\<close>

theorem start_both_failing_counterexample:
  "\<not> isRecording MeetingRecorder \<and> includeMic optsBoth \<and> includeSystem optsBoth \<and>
   getMicrophoneStream hostDeny = Inl (MicrophoneError ''Permission denied'') \<and>
   fst (getSystemAudioStream hostDeny world0) = None \<and>
   fst (start hostDeny optsBoth MeetingRecorder world0)
     = Inl (MicrophoneError ''Permission denied'') \<and>
   fst (start hostDeny optsBoth MeetingRecorder world0) \<noteq> Inl NoSourceError"
  by (simp add: recorder_defs fixture_defs)

section \<open>Fatal and non-fatal acquisition failures\<close>

lemma system_audio_degrades:
  "systemAudioFails h \<Longrightarrow> getSystemAudioStream h w = (None, w)"
  by (auto simp: systemAudioFails_def getSystemAudioStream_def getSystemAudioStream_try_def
        split: sum.splits list.splits)

lemma start_mic_only:
  assumes "\<not> isRecording s" "includeMic opts" "micGetUserMedia h = Inr mic"
    and "includeSystem opts" "getSystemAudioStream h w = (None, w)"
    and "mediaRecorderCtor h = None" "mediaRecorderStart h = None"
  shows "start h opts s w =
           (Inr (),
            s\<lparr>micStream := Some mic, systemStream := None, mixedStream := Some mic,
              mediaRecorder := Some \<lparr>recStream = mic, recMimeType = mimeType s,
                                      audioBitsPerSecond = 64000,
                                      timeslice = Some (chunkInterval s)\<rparr>,
              sequence := 0, audioChunks := [], isRecording := True\<rparr>,
            w)"
  using assms
  by (simp add: start_def start_try_def start_acquire_def getMicrophoneStream_def
        mixAudioStreams_def validStreamsOf_def List.map_filter_def start_encoder_def)

text \<open>
  Claim C4. From a state that is not recording, with the microphone requested: a failed
  microphone acquisition makes \<^verbatim>\<open>start\<close> fail with the microphone error. A failed
  system-audio acquisition, in each of its ways (no screen source and no audio track
  among them), makes \<^verbatim>\<open>getSystemAudioStream\<close> return null and leaves the store
  as it was; \<^verbatim>\<open>start\<close> then succeeds over the microphone stream alone, passed
  through without an audio context, provided the host accepts the encoder.
\<close>

theorem microphone_fatal_system_degrades:
  assumes "\<not> isRecording s" and "includeMic opts"
  shows "(micGetUserMedia h = Inl msg \<longrightarrow> fst (start h opts s w) = Inl (MicrophoneError msg))
       \<and> (systemAudioFails h \<longrightarrow> getSystemAudioStream h w = (None, w))
       \<and> (micGetUserMedia h = Inr mic \<and> includeSystem opts \<and> systemAudioFails h \<and>
          mediaRecorderCtor h = None \<and> mediaRecorderStart h = None \<longrightarrow>
            fst (start h opts s w) = Inr () \<and>
            isRecording (fst (snd (start h opts s w))) \<and>
            micStream (fst (snd (start h opts s w))) = Some mic \<and>
            systemStream (fst (snd (start h opts s w))) = None \<and>
            mixedStream (fst (snd (start h opts s w))) = Some mic \<and>
            audioContext (fst (snd (start h opts s w))) = audioContext s \<and>
            snd (snd (start h opts s w)) = w)"
proof (intro conjI impI)
  assume "micGetUserMedia h = Inl msg"
  with assms show "fst (start h opts s w) = Inl (MicrophoneError msg)"
    by (simp add: start_mic_denied)
next
  assume "systemAudioFails h"
  then show "getSystemAudioStream h w = (None, w)" by (rule system_audio_degrades)
next
  assume a: "micGetUserMedia h = Inr mic \<and> includeSystem opts \<and> systemAudioFails h \<and>
          mediaRecorderCtor h = None \<and> mediaRecorderStart h = None"
  then have "getSystemAudioStream h w = (None, w)" by (simp add: system_audio_degrades)
  with a assms have e: "start h opts s w =
           (Inr (),
            s\<lparr>micStream := Some mic, systemStream := None, mixedStream := Some mic,
              mediaRecorder := Some \<lparr>recStream = mic, recMimeType = mimeType s,
                                      audioBitsPerSecond = 64000,
                                      timeslice = Some (chunkInterval s)\<rparr>,
              sequence := 0, audioChunks := [], isRecording := True\<rparr>,
            w)"
    by (simp add: start_mic_only)
  show "fst (start h opts s w) = Inr ()" by (simp add: e)
  show "isRecording (fst (snd (start h opts s w)))" by (simp add: e)
  show "micStream (fst (snd (start h opts s w))) = Some mic" by (simp add: e)
  show "systemStream (fst (snd (start h opts s w))) = None" by (simp add: e)
  show "mixedStream (fst (snd (start h opts s w))) = Some mic" by (simp add: e)
  show "audioContext (fst (snd (start h opts s w))) = audioContext s" by (simp add: e)
  show "snd (snd (start h opts s w)) = w" by (simp add: e)
qed

theorem microphone_fatal_system_degrades_witness:
  "(\<not> isRecording MeetingRecorder \<and> includeMic optsBoth \<and>
    micGetUserMedia hostDeny = Inl ''Permission denied'' \<and>
    fst (start hostDeny optsBoth MeetingRecorder world0)
      = Inl (MicrophoneError ''Permission denied'')) \<and>
   (systemAudioFails hostMicOnly \<and> systemAudioFails hostMute \<and>
    getSystemAudioStream hostMicOnly world0 = (None, world0) \<and>
    getSystemAudioStream hostMute world0 = (None, world0)) \<and>
   (micGetUserMedia hostMute = Inr micStreamA \<and> includeSystem optsBoth \<and>
    mediaRecorderCtor hostMute = None \<and> mediaRecorderStart hostMute = None \<and>
    fst (start hostMute optsBoth MeetingRecorder world0) = Inr () \<and>
    isRecording (fst (snd (start hostMute optsBoth MeetingRecorder world0))) \<and>
    mixedStream (fst (snd (start hostMute optsBoth MeetingRecorder world0))) = Some micStreamA \<and>
    systemStream (fst (snd (start hostMute optsBoth MeetingRecorder world0))) = None)"
proof -
  have a: "\<not> isRecording MeetingRecorder" "includeMic optsBoth" "includeSystem optsBoth"
    by (simp_all add: MeetingRecorder_def optsBoth_def)
  have b: "micGetUserMedia hostDeny = Inl ''Permission denied''"
    "micGetUserMedia hostMute = Inr micStreamA"
    "mediaRecorderCtor hostMute = None" "mediaRecorderStart hostMute = None"
    by (simp_all add: hostDeny_def hostMute_def hostGrant_def)
  have c: "systemAudioFails hostMicOnly" "systemAudioFails hostMute"
    by (simp_all add: systemAudioFails_def hostMicOnly_def hostMute_def hostGrant_def
          desktopStreamMute_def)
  from microphone_fatal_system_degrades
         [OF a(1) a(2), of hostDeny "''Permission denied''" world0 micStreamA]
       microphone_fatal_system_degrades
         [OF a(1) a(2), of hostMicOnly "''''" world0 micStreamA]
       microphone_fatal_system_degrades
         [OF a(1) a(2), of hostMute "''''" world0 micStreamA]
       a b c
  show ?thesis by simp
qed

section \<open>Mixing\<close>

lemma validStreamsOf_filter:
  "map Some (validStreamsOf streams) = filter (\<lambda>x. x \<noteq> None) streams"
  by (induction streams) (auto simp: validStreamsOf_def List.map_filter_def)

lemma connectSources_all:
  "\<forall>stream \<in> set sts. createSourceFails h stream = None \<Longrightarrow> a < length (contexts w) \<Longrightarrow>
     connectSources h a sts w =
       (None, w\<lparr>contexts := (contexts w)
                 [a := (contexts w ! a)\<lparr>ctxSources := ctxSources (contexts w ! a) @ sts\<rparr>]\<rparr>)"
proof (induction sts arbitrary: w)
  case Nil
  then show ?case by simp
next
  case (Cons stream sts)
  have l: "a < length (contexts (connectSource a stream w))"
    using Cons.prems(2) by (simp add: connectSource_def)
  from Cons.prems(1) have f: "\<forall>stream \<in> set sts. createSourceFails h stream = None"
    and g: "createSourceFails h stream = None" by simp_all
  show ?case
    using Cons.IH [OF f l] g Cons.prems(2) by (simp add: connectSource_def)
qed

lemma mix_none: "validStreamsOf streams = [] \<Longrightarrow>
    mixAudioStreams h streams s w = (Inl NoSourceError, s, w)"
  by (simp add: mixAudioStreams_def)

lemma mix_one: "validStreamsOf streams = [stream] \<Longrightarrow>
    mixAudioStreams h streams s w = (Inr stream, s, w)"
  by (simp add: mixAudioStreams_def)

lemma mix_many:
  assumes "2 \<le> length (validStreamsOf streams)" and "audioContextCtor h = None"
    and "\<forall>stream \<in> set (validStreamsOf streams). createSourceFails h stream = None"
  shows "mixAudioStreams h streams s w =
           (Inr (destinationStream h),
            s\<lparr>audioContext := Some (length (contexts w))\<rparr>,
            w\<lparr>contexts := contexts w @
                 [\<lparr>sampleRate = 16000, destination = destinationStream h,
                   ctxSources = validStreamsOf streams, ctxClosed = False\<rparr>]\<rparr>)"
proof -
  let ?v = "validStreamsOf streams"
  let ?w1 = "w\<lparr>contexts := contexts w @
                 [\<lparr>sampleRate = 16000, destination = destinationStream h,
                   ctxSources = [], ctxClosed = False\<rparr>]\<rparr>"
  from assms(1) obtain x y rest where v: "?v = x # y # rest"
    by (cases ?v; cases "tl ?v") auto
  have c: "connectSources h (length (contexts w)) ?v ?w1 =
       (None, ?w1\<lparr>contexts := (contexts ?w1)
                 [length (contexts w) := (contexts ?w1 ! length (contexts w))
                    \<lparr>ctxSources := ctxSources (contexts ?w1 ! length (contexts w)) @ ?v\<rparr>]\<rparr>)"
    by (rule connectSources_all [OF assms(3)]) simp
  have "mixAudioStreams h streams s w =
          (case connectSources h (length (contexts w)) ?v ?w1 of
             (Some e, w2) \<Rightarrow> (Inl e, s\<lparr>audioContext := Some (length (contexts w))\<rparr>, w2)
           | (None, w2) \<Rightarrow>
               (Inr (destination (contexts w2 ! length (contexts w))),
                s\<lparr>audioContext := Some (length (contexts w))\<rparr>, w2))"
    using v assms(2) by (simp add: mixAudioStreams_def Let_def del: connectSources.simps)
  then show ?thesis by (simp add: c)
qed

text \<open>
  Claim C5. The valid streams are the given streams without the nulls, in order. With no
  valid stream \<^verbatim>\<open>mixAudioStreams\<close> fails with the no-source error; with exactly one
  it returns that stream, and recorder and store are unchanged (no audio context); with
  two or more, when the host raises no exception, it creates one audio context at 16000
  Hz, records it in the recorder, connects every valid stream to the destination, in
  order, and returns the stream of the destination.
\<close>

theorem mixAudioStreams_cases:
  "map Some (validStreamsOf streams) = filter (\<lambda>x. x \<noteq> None) streams
   \<and> (validStreamsOf streams = [] \<longrightarrow>
        mixAudioStreams h streams s w = (Inl NoSourceError, s, w))
   \<and> (validStreamsOf streams = [stream] \<longrightarrow>
        mixAudioStreams h streams s w = (Inr stream, s, w))
   \<and> (2 \<le> length (validStreamsOf streams) \<and> audioContextCtor h = None \<and>
      (\<forall>x \<in> set (validStreamsOf streams). createSourceFails h x = None) \<longrightarrow>
        mixAudioStreams h streams s w =
           (Inr (destinationStream h),
            s\<lparr>audioContext := Some (length (contexts w))\<rparr>,
            w\<lparr>contexts := contexts w @
                 [\<lparr>sampleRate = 16000, destination = destinationStream h,
                   ctxSources = validStreamsOf streams, ctxClosed = False\<rparr>]\<rparr>))"
  using validStreamsOf_filter mix_none mix_one mix_many by blast

theorem mixAudioStreams_cases_witness:
  "validStreamsOf [None, None] = [] \<and>
   mixAudioStreams hostGrant [None, None] MeetingRecorder world0
     = (Inl NoSourceError, MeetingRecorder, world0) \<and>
   validStreamsOf [None, Some micStreamA] = [micStreamA] \<and>
   mixAudioStreams hostGrant [None, Some micStreamA] MeetingRecorder world0
     = (Inr micStreamA, MeetingRecorder, world0) \<and>
   validStreamsOf [Some micStreamA, None, Some desktopStreamA] = [micStreamA, desktopStreamA] \<and>
   audioContextCtor hostGrant = None \<and>
   createSourceFails hostGrant micStreamA = None \<and>
   createSourceFails hostGrant desktopStreamA = None \<and>
   mixAudioStreams hostGrant [Some micStreamA, None, Some desktopStreamA] MeetingRecorder world0
     = (Inr destStreamA, MeetingRecorder\<lparr>audioContext := Some 0\<rparr>,
        world0\<lparr>contexts :=
           [\<lparr>sampleRate = 16000, destination = destStreamA,
             ctxSources = [micStreamA, desktopStreamA], ctxClosed = False\<rparr>]\<rparr>)"
proof -
  have v: "validStreamsOf [None, None] = []"
    "validStreamsOf [None, Some micStreamA] = [micStreamA]"
    "validStreamsOf [Some micStreamA, None, Some desktopStreamA] = [micStreamA, desktopStreamA]"
    by (simp_all add: validStreamsOf_def List.map_filter_def)
  have g: "audioContextCtor hostGrant = None" "destinationStream hostGrant = destStreamA"
    "\<forall>x \<in> set [micStreamA, desktopStreamA]. createSourceFails hostGrant x = None"
    by (simp_all add: hostGrant_def)
  have c: "contexts world0 = []" by (simp add: world0_def)
  from mixAudioStreams_cases [where streams = "[None, None]" and h = hostGrant
                                and s = MeetingRecorder and w = world0]
    mixAudioStreams_cases [where streams = "[None, Some micStreamA]" and h = hostGrant
                             and s = MeetingRecorder and w = world0 and stream = micStreamA]
    mixAudioStreams_cases [where streams = "[Some micStreamA, None, Some desktopStreamA]"
                             and h = hostGrant and s = MeetingRecorder and w = world0]
    v g c
  show ?thesis by simp
qed

section \<open>Cleanup\<close>

lemma cleanup_twice:
  "cleanup (fst (cleanup s w)) (snd (cleanup s w)) = cleanup s w"
  by (simp add: cleanup_result)

lemma cleanup_nothing:
  "micStream s = None \<Longrightarrow> systemStream s = None \<Longrightarrow> audioContext s = None \<Longrightarrow>
   mixedStream s = None \<Longrightarrow> mediaRecorder s = None \<Longrightarrow> \<not> isRecording s \<Longrightarrow>
   cleanup s w = (s, w)"
  by (simp add: cleanup_result)

text \<open>
  Claim C9. For every recorder and store, running \<^verbatim>\<open>cleanup\<close> on the result of
  \<^verbatim>\<open>cleanup\<close> gives that result again; and on a recorder that holds nothing (no
  stream, no audio context, no encoder, not recording) \<^verbatim>\<open>cleanup\<close> changes
  neither the recorder nor the store. \<^verbatim>\<open>cleanup\<close> has no error result: none of
  its statements throws.
\<close>

theorem cleanup_idempotent:
  "cleanup (fst (cleanup s w)) (snd (cleanup s w)) = cleanup s w
   \<and> (micStream s = None \<and> systemStream s = None \<and> audioContext s = None \<and>
      mixedStream s = None \<and> mediaRecorder s = None \<and> \<not> isRecording s
        \<longrightarrow> cleanup s w = (s, w))"
  using cleanup_twice cleanup_nothing by blast

theorem cleanup_idempotent_witness:
  "cleanup recorderHeld worldHeld =
     (MeetingRecorder,
      worldHeld\<lparr>stoppedTracks := {1, 2, 3},
        contexts := [\<lparr>sampleRate = 16000, destination = destStreamA,
                      ctxSources = [micStreamA, \<lparr>audioTracks = [2], videoTracks = []\<rparr>],
                      ctxClosed = True\<rparr>]\<rparr>) \<and>
   cleanup (fst (cleanup recorderHeld worldHeld)) (snd (cleanup recorderHeld worldHeld))
     = cleanup recorderHeld worldHeld \<and>
   micStream MeetingRecorder = None \<and> systemStream MeetingRecorder = None \<and>
   audioContext MeetingRecorder = None \<and> mixedStream MeetingRecorder = None \<and>
   mediaRecorder MeetingRecorder = None \<and> \<not> isRecording MeetingRecorder \<and>
   cleanup MeetingRecorder world0 = (MeetingRecorder, world0)"
proof -
  have a: "cleanup recorderHeld worldHeld =
     (MeetingRecorder,
      worldHeld\<lparr>stoppedTracks := {1, 2, 3},
        contexts := [\<lparr>sampleRate = 16000, destination = destStreamA,
                      ctxSources = [micStreamA, \<lparr>audioTracks = [2], videoTracks = []\<rparr>],
                      ctxClosed = True\<rparr>]\<rparr>)"
    by (auto simp: cleanup_def closeContext_def stopTracks_eq getTracks_def recorderHeld_def
          worldHeld_def world0_def MeetingRecorder_def micStreamA_def)
  have b: "micStream MeetingRecorder = None \<and> systemStream MeetingRecorder = None \<and>
   audioContext MeetingRecorder = None \<and> mixedStream MeetingRecorder = None \<and>
   mediaRecorder MeetingRecorder = None \<and> \<not> isRecording MeetingRecorder"
    by (simp add: MeetingRecorder_def)
  from cleanup_idempotent [of recorderHeld worldHeld]
    cleanup_idempotent [of MeetingRecorder world0] a b
  show ?thesis by simp
qed

section \<open>Cleanup after a failed start\<close>

text \<open>
  What a failed \<^verbatim>\<open>start\<close> does release: it ends with \<^verbatim>\<open>cleanup\<close>, so all
  references are cleared, every track of the microphone stream is stopped, the audio
  context is closed, and every track of a desktop capture that has an audio track is
  stopped (its video tracks at acquisition, its audio tracks by \<^verbatim>\<open>cleanup\<close>).
\<close>

lemma start_failure_is_cleanup:
  "\<not> isRecording s \<Longrightarrow> fst (start h opts s w) = Inl e \<Longrightarrow>
     fst (start_try h opts s w) = Inl e \<and>
     snd (start h opts s w) =
       cleanup (fst (snd (start_try h opts s w))) (snd (snd (start_try h opts s w)))"
  by (auto simp: start_def split: prod.splits sum.splits)

lemma start_failure_clears_references:
  assumes "\<not> isRecording s" and "fst (start h opts s w) = Inl e"
  shows "micStream (fst (snd (start h opts s w))) = None
       \<and> systemStream (fst (snd (start h opts s w))) = None
       \<and> audioContext (fst (snd (start h opts s w))) = None
       \<and> mixedStream (fst (snd (start h opts s w))) = None
       \<and> mediaRecorder (fst (snd (start h opts s w))) = None
       \<and> \<not> isRecording (fst (snd (start h opts s w)))"
  using start_failure_is_cleanup [OF assms] by (simp add: cleanup_result)

lemma closeContext_stopped: "stoppedTracks (closeContext a w) = stoppedTracks w"
  by (simp add: closeContext_def)

lemma cleanup_stops_held:
  "stoppedTracks (snd (cleanup s w)) =
     stoppedTracks w
       \<union> (case micStream s of None \<Rightarrow> {} | Some stream \<Rightarrow> set (getTracks stream))
       \<union> (case systemStream s of None \<Rightarrow> {} | Some stream \<Rightarrow> set (getTracks stream))"
  by (cases "audioContext s") (simp_all add: cleanup_result closeContext_stopped)

lemma cleanup_closes_context:
  "audioContext s = Some a \<Longrightarrow> a < length (contexts w) \<Longrightarrow>
     ctxClosed (contexts (snd (cleanup s w)) ! a)"
  by (simp add: cleanup_result closeContext_def)

lemma mixAudioStreams_keeps_streams:
  "mixAudioStreams h streams s w = (r, s', w') \<Longrightarrow>
     micStream s' = micStream s \<and> systemStream s' = systemStream s"
  by (auto simp: mixAudioStreams_def Let_def split: list.splits option.splits prod.splits)

lemma start_encoder_keeps_streams:
  "start_encoder h mixed s w = (r, s', w') \<Longrightarrow>
     micStream s' = micStream s \<and> systemStream s' = systemStream s"
  by (auto simp: start_encoder_def Let_def split: option.splits)

lemma start_acquire_holds_mic:
  "start_acquire h opts s w = (r, s', w') \<Longrightarrow> includeMic opts \<Longrightarrow>
     micGetUserMedia h = Inr stream \<Longrightarrow> micStream s' = Some stream"
  by (auto simp: start_acquire_def getMicrophoneStream_def split: prod.splits if_splits)

lemma start_try_holds_mic:
  assumes "start_try h opts s w = (r, s', w')" and "includeMic opts"
    and "micGetUserMedia h = Inr stream"
  shows "micStream s' = Some stream"
proof -
  obtain r1 s1 w1 where a: "start_acquire h opts s w = (r1, s1, w1)"
    by (cases "start_acquire h opts s w")
  from start_acquire_holds_mic [OF a assms(2,3)] have m: "micStream s1 = Some stream" .
  show ?thesis
  proof (cases r1)
    case (Inl e)
    with a assms(1) m show ?thesis by (simp add: start_try_def)
  next
    case (Inr streams)
    obtain r2 s2 w2 where b: "mixAudioStreams h streams s1 w1 = (r2, s2, w2)"
      by (cases "mixAudioStreams h streams s1 w1")
    from mixAudioStreams_keeps_streams [OF b] m have m2: "micStream s2 = Some stream" by simp
    show ?thesis
    proof (cases r2)
      case (Inl e)
      with a b Inr assms(1) m2 show ?thesis by (simp add: start_try_def)
    next
      case (Inr mixed)
      with a b \<open>r1 = Inr streams\<close> assms(1)
      have "start_encoder h mixed s2 w2 = (r, s', w')" by (simp add: start_try_def)
      from start_encoder_keeps_streams [OF this] m2 show ?thesis by simp
    qed
  qed
qed

lemma start_failure_stops_microphone:
  assumes "\<not> isRecording s" and "fst (start h opts s w) = Inl e"
    and "includeMic opts" and "micGetUserMedia h = Inr stream"
  shows "set (getTracks stream) \<subseteq> stoppedTracks (snd (snd (start h opts s w)))"
proof -
  obtain r s1 w1 where a: "start_try h opts s w = (r, s1, w1)"
    by (cases "start_try h opts s w")
  from start_try_holds_mic [OF a assms(3,4)] have m: "micStream s1 = Some stream" .
  from start_failure_is_cleanup [OF assms(1,2)] a
  have "snd (start h opts s w) = cleanup s1 w1" by simp
  then have "stoppedTracks (snd (snd (start h opts s w))) = stoppedTracks (snd (cleanup s1 w1))"
    by simp
  with m show ?thesis by (auto simp: cleanup_stops_held)
qed

lemma connectSources_stopped:
  "stoppedTracks (snd (connectSources h a sts w)) = stoppedTracks w"
  by (induction sts arbitrary: w) (simp_all add: connectSource_def split: option.splits)

lemma mixAudioStreams_stopped:
  assumes "mixAudioStreams h streams s w = (r, s', w')"
  shows "stoppedTracks w' = stoppedTracks w"
proof (cases "audioContextCtor h")
  case (Some msg)
  with assms show ?thesis
    by (auto simp: mixAudioStreams_def split: list.splits)
next
  case None
  let ?w1 = "w\<lparr>contexts := contexts w @
                 [\<lparr>sampleRate = 16000, destination = destinationStream h,
                   ctxSources = [], ctxClosed = False\<rparr>]\<rparr>"
  have c: "stoppedTracks (snd (connectSources h (length (contexts w)) v ?w1)) = stoppedTracks w"
    for v by (simp add: connectSources_stopped)
  from assms None show ?thesis
  proof (cases "validStreamsOf streams")
    case Nil
    with assms show ?thesis by (simp add: mixAudioStreams_def)
  next
    case (Cons x rest)
    show ?thesis
    proof (cases rest)
      case Nil
      with Cons assms show ?thesis by (simp add: mixAudioStreams_def)
    next
      case (Cons y rest')
      with \<open>validStreamsOf streams = x # rest\<close> assms None
      have "w' = snd (connectSources h (length (contexts w)) (x # y # rest') ?w1)"
        by (simp add: mixAudioStreams_def Let_def del: connectSources.simps
              split: prod.splits option.splits)
      with c [of "x # y # rest'"] show ?thesis by (simp del: connectSources.simps)
    qed
  qed
qed

lemma start_encoder_world:
  "start_encoder h mixed s w = (r, s', w') \<Longrightarrow> w' = w"
  by (auto simp: start_encoder_def Let_def split: option.splits)

lemma start_acquire_desktop:
  assumes "start_acquire h opts s w = (r, s', w')" and "includeSystem opts"
    and "includeMic opts \<longrightarrow> (\<exists>mic. micGetUserMedia h = Inr mic)"
    and "getSources h = Inr (source0 # rest)" and "desktopGetUserMedia h source0 = Inr stream"
    and "audioTracks stream \<noteq> []"
  shows "systemStream s' = Some \<lparr>audioTracks = audioTracks stream, videoTracks = []\<rparr>
       \<and> set (videoTracks stream) \<subseteq> stoppedTracks w'"
  using assms
  by (auto simp: start_acquire_def getMicrophoneStream_def getSystemAudioStream_def
        getSystemAudioStream_try_def stopTracks_eq split: if_splits)

lemma start_try_desktop:
  assumes "start_try h opts s w = (r, s', w')" and "includeSystem opts"
    and "includeMic opts \<longrightarrow> (\<exists>mic. micGetUserMedia h = Inr mic)"
    and "getSources h = Inr (source0 # rest)" and "desktopGetUserMedia h source0 = Inr stream"
    and "audioTracks stream \<noteq> []"
  shows "systemStream s' = Some \<lparr>audioTracks = audioTracks stream, videoTracks = []\<rparr>
       \<and> set (videoTracks stream) \<subseteq> stoppedTracks w'"
proof -
  obtain r1 s1 w1 where a: "start_acquire h opts s w = (r1, s1, w1)"
    by (cases "start_acquire h opts s w")
  note m = start_acquire_desktop [OF a assms(2-6)]
  show ?thesis
  proof (cases r1)
    case (Inl e)
    with a assms(1) m show ?thesis by (simp add: start_try_def)
  next
    case (Inr streams)
    obtain r2 s2 w2 where b: "mixAudioStreams h streams s1 w1 = (r2, s2, w2)"
      by (cases "mixAudioStreams h streams s1 w1")
    from mixAudioStreams_keeps_streams [OF b] mixAudioStreams_stopped [OF b] m
    have m2: "systemStream s2 = Some \<lparr>audioTracks = audioTracks stream, videoTracks = []\<rparr>
       \<and> set (videoTracks stream) \<subseteq> stoppedTracks w2" by simp
    show ?thesis
    proof (cases r2)
      case (Inl e)
      with a b Inr assms(1) m2 show ?thesis by (simp add: start_try_def)
    next
      case (Inr mixed)
      with a b \<open>r1 = Inr streams\<close> assms(1)
      have "start_encoder h mixed s2 w2 = (r, s', w')" by (simp add: start_try_def)
      from start_encoder_keeps_streams [OF this] start_encoder_world [OF this] m2
      show ?thesis by simp
    qed
  qed
qed

lemma start_failure_stops_desktop:
  assumes "\<not> isRecording s" and "fst (start h opts s w) = Inl e"
    and "includeSystem opts"
    and "includeMic opts \<longrightarrow> (\<exists>mic. micGetUserMedia h = Inr mic)"
    and "getSources h = Inr (source0 # rest)" and "desktopGetUserMedia h source0 = Inr stream"
    and "audioTracks stream \<noteq> []"
  shows "set (getTracks stream) \<subseteq> stoppedTracks (snd (snd (start h opts s w)))"
proof -
  obtain r s1 w1 where a: "start_try h opts s w = (r, s1, w1)"
    by (cases "start_try h opts s w")
  note m = start_try_desktop [OF a assms(3-7)]
  from start_failure_is_cleanup [OF assms(1,2)] a
  have "snd (start h opts s w) = cleanup s1 w1" by simp
  then have "stoppedTracks (snd (snd (start h opts s w))) = stoppedTracks (snd (cleanup s1 w1))"
    by simp
  with m show ?thesis by (auto simp: cleanup_stops_held getTracks_def)
qed

text \<open>
  For example, with both streams granted and mixed and the encoder refused, the tracks 1,
  2 and 3 end stopped and the audio context closed.
\<close>

lemma start_encoder_refused_example:
  "start hostNoEncoder optsBoth MeetingRecorder world0 =
     (Inl (HostException ''NotSupportedError''), MeetingRecorder,
      world0\<lparr>stoppedTracks := {1, 2, 3},
        contexts := [\<lparr>sampleRate = 16000, destination = destStreamA,
                      ctxSources = [micStreamA, \<lparr>audioTracks = [2], videoTracks = []\<rparr>],
                      ctxClosed = True\<rparr>]\<rparr>)"
  by (auto simp: recorder_defs fixture_defs)

text \<open>
  Claim C6 says that after a failed \<^verbatim>\<open>start\<close> every track of every acquired
  stream is stopped. The code misses one case. When the desktop capture succeeds with a
  video track and no audio track, \<^verbatim>\<open>getSystemAudioStream\<close> throws before the
  statement that stops the video tracks, its \<^verbatim>\<open>catch\<close> returns null, and no field
  of the recorder refers to the captured stream. With system audio alone requested,
  \<^verbatim>\<open>start\<close> then fails with the no-source error, \<^verbatim>\<open>cleanup\<close> finds nothing
  to stop, and the video track 7 of the captured stream is still live.
\<close>

theorem start_failure_leaves_video_track_live:
  "\<not> isRecording MeetingRecorder \<and>
   getSources hostMute = Inr [''screen:0:0''] \<and>
   desktopGetUserMedia hostMute ''screen:0:0'' = Inr desktopStreamMute \<and>
   getTracks desktopStreamMute = [7] \<and>
   start hostMute optsSystem MeetingRecorder world0 = (Inl NoSourceError, MeetingRecorder, world0) \<and>
   7 \<notin> stoppedTracks (snd (snd (start hostMute optsSystem MeetingRecorder world0)))"
  by (simp add: recorder_defs fixture_defs)

section \<open>The session id of the client\<close>

lemma endMeeting_success_iff:
  "(\<exists>d. fst (endMeeting reply api n) = Inr d) =
     (truthy (meetingId api) \<and> (\<exists>status d. reply = Response status (Some d) \<and> ok status))"
  by (cases reply) (auto simp: endMeeting_def Let_def split: option.splits)

lemma endMeeting_failure:
  "fst (endMeeting reply api n) = Inl e \<Longrightarrow> fst (snd (endMeeting reply api n)) = api"
  by (cases reply) (auto simp: endMeeting_def Let_def split: option.splits if_splits)

lemma endMeeting_success:
  "fst (endMeeting reply api n) = Inr d \<Longrightarrow>
     fst (snd (endMeeting reply api n)) = api\<lparr>meetingId := Some JNull\<rparr>"
  by (cases reply) (auto simp: endMeeting_def Let_def split: option.splits if_splits)

lemma submitAudio_keeps_api:
  "fst (snd (submitAudio audioBlob seqno timestamp reply api n)) = api"
  by (cases reply) (auto simp: submitAudio_def Let_def split: option.splits)

text \<open>
  Claim C7. A failed \<^verbatim>\<open>endMeeting\<close> leaves the client, and so its meeting id, as
  it was; a successful one sets the meeting id to null; it succeeds exactly when a meeting
  id is present and the reply is a response with a status from 200 to 299 whose body
  parses. \<^verbatim>\<open>submitAudio\<close> never changes the client, whether it fails or not.
\<close>

theorem session_id_cleared_only_on_success:
  "(case fst (endMeeting reply api n) of
      Inl e \<Rightarrow> fst (snd (endMeeting reply api n)) = api
    | Inr d \<Rightarrow> fst (snd (endMeeting reply api n)) = api\<lparr>meetingId := Some JNull\<rparr>)
   \<and> ((\<exists>d. fst (endMeeting reply api n) = Inr d) =
        (truthy (meetingId api) \<and> (\<exists>status d. reply = Response status (Some d) \<and> ok status)))
   \<and> fst (snd (submitAudio audioBlob seqno timestamp reply2 api n)) = api"
  using endMeeting_failure endMeeting_success endMeeting_success_iff submitAudio_keeps_api
  by (simp split: sum.splits)

theorem session_id_cleared_only_on_success_witness:
  "fst (endMeeting (Response 500 None) apiActive net0) = Inl (EndFailed 500) \<and>
   meetingId (fst (snd (endMeeting (Response 500 None) apiActive net0))) = Some (JString ''m-123'') \<and>
   fst (endMeeting (Rejected ''offline'') apiActive net0) = Inl (FetchRejected ''offline'') \<and>
   meetingId (fst (snd (endMeeting (Rejected ''offline'') apiActive net0)))
     = Some (JString ''m-123'') \<and>
   (\<exists>d. fst (endMeeting replyEnded apiActive net0) = Inr d) \<and>
   meetingId (fst (snd (endMeeting replyEnded apiActive net0))) = Some JNull \<and>
   fst (submitAudio [1] 1 169000000 (Response 503 None) apiActive net0) = Inl (SubmitFailed 503) \<and>
   meetingId (fst (snd (submitAudio [1] 1 169000000 (Response 503 None) apiActive net0)))
     = Some (JString ''m-123'')"
proof -
  have a: "fst (endMeeting (Response 500 None) apiActive net0) = Inl (EndFailed 500)"
    "fst (endMeeting (Rejected ''offline'') apiActive net0) = Inl (FetchRejected ''offline'')"
    "fst (endMeeting replyEnded apiActive net0) =
       Inr (JObject [(''finalSummary'', JString ''done''), (''duration'', JNumber 60)])"
    "fst (submitAudio [1] 1 169000000 (Response 503 None) apiActive net0) = Inl (SubmitFailed 503)"
    "meetingId apiActive = Some (JString ''m-123'')"
    by (simp_all add: endMeeting_def submitAudio_def apiActive_def MeetingAPI_def ok_def
          replyEnded_def)
  from session_id_cleared_only_on_success
         [of "Response 500 None" apiActive net0 "[1]" 1 169000000 "Response 503 None"]
       session_id_cleared_only_on_success
         [of "Rejected ''offline''" apiActive net0 "[1]" 1 169000000 "Response 503 None"]
       session_id_cleared_only_on_success
         [of replyEnded apiActive net0 "[1]" 1 169000000 "Response 503 None"]
       a
  show ?thesis by simp
qed

text \<open>
  Claim C8. In every state without a meeting id (null as after the constructor or after a
  successful \<^verbatim>\<open>endMeeting\<close>, or any other falsy value), \<^verbatim>\<open>submitAudio\<close>
  fails with the meeting-not-created error, and the client and the list of issued
  requests are unchanged.
\<close>

theorem submit_without_session:
  assumes "\<not> truthy (meetingId api)"
  shows "submitAudio audioBlob seqno timestamp reply api n = (Inl MeetingNotCreated, api, n)"
  using assms by (simp add: submitAudio_def)

theorem submit_without_session_witness:
  "\<not> truthy (meetingId (MeetingAPI API_BASE_URL)) \<and>
   submitAudio [1] 1 169000000 (replyCreated ''x'') (MeetingAPI API_BASE_URL) net0
     = (Inl MeetingNotCreated, MeetingAPI API_BASE_URL, net0) \<and>
   \<not> truthy (meetingId (fst (snd (endMeeting replyEnded apiActive net0)))) \<and>
   submitAudio [1] 1 169000000 (replyCreated ''x'')
       (fst (snd (endMeeting replyEnded apiActive net0)))
       (snd (snd (endMeeting replyEnded apiActive net0)))
     = (Inl MeetingNotCreated, fst (snd (endMeeting replyEnded apiActive net0)),
        snd (snd (endMeeting replyEnded apiActive net0)))"
proof -
  have a: "\<not> truthy (meetingId (MeetingAPI API_BASE_URL))"
    by (simp add: MeetingAPI_def)
  have b: "\<not> truthy (meetingId (fst (snd (endMeeting replyEnded apiActive net0))))"
    by (simp add: endMeeting_def apiActive_def MeetingAPI_def ok_def replyEnded_def)
  from submit_without_session [OF a, of "[1]" 1 169000000 "replyCreated ''x''" net0]
       submit_without_session [OF b, of "[1]" 1 169000000 "replyCreated ''x''"
                                 "snd (snd (endMeeting replyEnded apiActive net0))"]
       a b
  show ?thesis by simp
qed

text \<open>
  Claim C10. Whatever meeting id the client holds, a \<^verbatim>\<open>createMeeting\<close> that is
  answered by an ok response with a body other than null returns that body, stores the
  \<^verbatim>\<open>meetingId\<close> of the body in place of the old id, and issues the create request
  and no other request: no error, no guard, no end request for the old meeting.
\<close>

theorem createMeeting_overwrites:
  assumes "ok status" and "meetingIdOf data = Inr v"
  shows "createMeeting userId title (Response status (Some data)) api n =
           (Inr data, api\<lparr>meetingId := v\<rparr>,
            n\<lparr>requests := requests n @ [CreateRequest (baseUrl api) userId title]\<rparr>)"
  using assms by (simp add: createMeeting_def)

theorem createMeeting_overwrites_witness:
  "truthy (meetingId apiActive) \<and> meetingId apiActive = Some (JString ''m-123'') \<and>
   ok 200 \<and>
   createMeeting ''u1'' ''Standup'' (replyCreated ''m-456'') apiActive net0 =
     (Inr (JObject [(''meetingId'', JString ''m-456''), (''status'', JString ''created'')]),
      apiActive\<lparr>meetingId := Some (JString ''m-456'')\<rparr>,
      \<lparr>requests = [CreateRequest API_BASE_URL ''u1'' ''Standup'']\<rparr>)"
proof -
  have a: "ok 200" by (simp add: ok_def)
  have b: "meetingIdOf (JObject [(''meetingId'', JString ''m-456''), (''status'', JString ''created'')])
             = Inr (Some (JString ''m-456''))"
    by simp
  have c: "meetingId apiActive = Some (JString ''m-123'')" "baseUrl apiActive = API_BASE_URL"
    by (simp_all add: apiActive_def MeetingAPI_def)
  from createMeeting_overwrites [OF a b, of "''u1''" "''Standup''" apiActive net0] a c
  show ?thesis by (simp add: replyCreated_def net0_def)
qed

end
